theory Spec2Isabelle
  imports Complex_Main "HOL-Library.Word"
begin

section \<open>Package byond: the topic query client\<close>

text \<open>
  Go strings and byte slices are both sequences of bytes; a byte is a \<^typ>\<open>char\<close>
  and both are \<^typ>\<open>char list\<close>. The conversions \<^verbatim>\<open>string(data)\<close> and
  \<^verbatim>\<open>WriteString\<close> are then the identity. A nil slice is the empty list.
\<close>

type_synonym byte = char

definition TopicTypeNull :: int where
  "TopicTypeNull = 0x0"

definition TopicTypeNumber :: int where
  "TopicTypeNumber = 0x2A"

definition TopicTypeString :: int where
  "TopicTypeString = 0x6"

definition BYOND_PACKET_HEADER_SIZE :: nat where
  "BYOND_PACKET_HEADER_SIZE = 4"

text \<open>
  The Go conversion \<^verbatim>\<open>string(i)\<close> of an integer \<open>i\<close>: the UTF-8 encoding of the code
  point \<open>i\<close>, and of U+FFFD when \<open>i\<close> is no valid code point. It is what
  \<^verbatim>\<open>string(len(data)+6)\<close> computes in \<^verbatim>\<open>Topic\<close>.
\<close>

definition intstring :: "int \<Rightarrow> byte list" where
  "intstring v =
    (if 0 \<le> v \<and> v \<le> 0x7F then [char_of v]
     else if 0x80 \<le> v \<and> v \<le> 0x7FF then
       [char_of (0xC0 + v div 64), char_of (0x80 + v mod 64)]
     else if v < 0 \<or> 0x10FFFF < v \<or> (0xD800 \<le> v \<and> v \<le> 0xDFFF) then
       [CHR 0xEF, CHR 0xBF, CHR 0xBD]
     else if v \<le> 0xFFFF then
       [char_of (0xE0 + v div 4096), char_of (0x80 + v div 64 mod 64),
        char_of (0x80 + v mod 64)]
     else
       [char_of (0xF0 + v div 262144), char_of (0x80 + v div 4096 mod 64),
        char_of (0x80 + v div 64 mod 64), char_of (0x80 + v mod 64)])"

text \<open>The bytes \<^verbatim>\<open>packetData\<close> holds after the five \<^verbatim>\<open>WriteString\<close> calls.\<close>

definition request_frame :: "string \<Rightarrow> byte list" where
  "request_frame data =
     [CHR 0x00, CHR 0x83]
     @ ([CHR 0x00] @ intstring (int (length data) + 6))
     @ [CHR 0x00, CHR 0x00, CHR 0x00, CHR 0x00, CHR 0x00]
     @ data
     @ [CHR 0x00]"

text \<open>
  The network. Dialling an address fails with an error or reaches a peer; the peer
  answers the request it is sent with a stream of bytes that arrives in deliveries
  (the list of chunks, in order). No chunk left means the peer has closed the connection.
\<close>

datatype error = DialError

type_synonym conn = "byte list list"

type_synonym network = "string \<Rightarrow> error + (byte list \<Rightarrow> conn)"

text \<open>
  One call \<^verbatim>\<open>conn.Read(b)\<close> on a fresh buffer \<^verbatim>\<open>b = make([]byte, n)\<close>: it
  copies what the next delivery holds, at most \<open>n\<close> bytes, and returns. The result is the
  buffer afterwards (the bytes not written stay zero) and the rest of the stream. The
  source ignores the count and the error that \<^verbatim>\<open>Read\<close> returns.
\<close>

fun conn_Read :: "conn \<Rightarrow> nat \<Rightarrow> byte list \<times> conn" where
  "conn_Read [] n = (replicate n (CHR 0x00), [])"
| "conn_Read (c # cs) n =
     (if n = 0 then ([], c # cs)
      else (take n c @ replicate (n - length c) (CHR 0x00),
            if n < length c then drop n c # cs else cs))"

text \<open>\<^verbatim>\<open>binary.BigEndian.Uint16(b)\<close>, for a slice of at least two bytes.\<close>

definition Uint16 :: "byte list \<Rightarrow> nat" where
  "Uint16 b = of_char (b ! 1) + of_char (b ! 0) * 256"

definition Topic :: "network \<Rightarrow> string \<Rightarrow> string \<Rightarrow> error option \<times> int \<times> byte list" where
  "Topic net address data =
    (let packetData = request_frame data in
     case net address of
       Inl err \<Rightarrow> (Some err, TopicTypeNull, [])
     | Inr peer \<Rightarrow>
         (let conn = peer packetData;
              (responseHeaderData, conn1) = conn_Read conn BYOND_PACKET_HEADER_SIZE;
              PacketType = Uint16 (drop 0 responseHeaderData);
              DataSize = Uint16 (drop 2 responseHeaderData);
              (responseData, conn2) = conn_Read conn1 DataSize;
              responseDataType =
                (if length responseData > 2 then int (of_char (responseData ! 0))
                 else TopicTypeNull)
          in if responseDataType = TopicTypeNull then (None, responseDataType, [])
             else (None, responseDataType, drop 1 responseData)))"

text \<open>
  Modelled from the spec: the reference parser of request frames, which the repository
  does not contain. It follows the wire format of the request: two bytes of type
  \<open>0x00 0x83\<close>, a big-endian 16-bit length \<open>L\<close>, then \<open>L\<close> bytes made of five padding
  bytes, the payload and a closing NUL. It returns the payload of a well-formed frame.
\<close>

definition decode_request :: "byte list \<Rightarrow> string option" where
  "decode_request frame =
    (if length frame < 4 \<or> take 2 frame \<noteq> [CHR 0x00, CHR 0x83] then None
     else let L = Uint16 (drop 2 frame); body = drop 4 frame in
       if length body \<noteq> L \<or> L < 6 then None
       else if take 5 body \<noteq> [CHR 0x00, CHR 0x00, CHR 0x00, CHR 0x00, CHR 0x00] \<or>
                last body \<noteq> CHR 0x00 then None
       else Some (take (L - 6) (drop 5 body)))"

section \<open>Library functions the handlers call\<close>

subsection \<open>strconv.Atoi\<close>

text \<open>
  \<^verbatim>\<open>strconv.Atoi\<close> on a 64-bit platform, with the value it returns beside each error:
  0 with a syntax error, the nearest bound of \<^verbatim>\<open>int64\<close> with a range error. The
  handlers drop the error and keep the value.
\<close>

datatype NumError = ErrSyntax | ErrRange

definition maxUint64 :: int where
  "maxUint64 = 2 ^ 64 - 1"

definition isdigit :: "char \<Rightarrow> bool" where
  "isdigit c = (48 \<le> (of_char c :: nat) \<and> (of_char c :: nat) \<le> 57)"

text \<open>The digit loop of \<^verbatim>\<open>ParseUint(s, 10, 64)\<close>, from the accumulated value \<open>n\<close>.\<close>

fun ParseUint_loop :: "int \<Rightarrow> string \<Rightarrow> int \<times> NumError option" where
  "ParseUint_loop n [] = (n, None)"
| "ParseUint_loop n (c # s) =
     (if \<not> isdigit c then (0, Some ErrSyntax)
      else if n \<ge> maxUint64 div 10 + 1 then (maxUint64, Some ErrRange)
      else if n * 10 + (of_char c - 48) > maxUint64 then (maxUint64, Some ErrRange)
      else ParseUint_loop (n * 10 + (of_char c - 48)) s)"

definition ParseUint :: "string \<Rightarrow> int \<times> NumError option" where
  "ParseUint s = (if s = [] then (0, Some ErrSyntax) else ParseUint_loop 0 s)"

definition ParseInt :: "string \<Rightarrow> int \<times> NumError option" where
  "ParseInt s =
    (if s = [] then (0, Some ErrSyntax)
     else
       let neg = (hd s = CHR ''-'');
           s1 = (if hd s = CHR ''+'' \<or> hd s = CHR ''-'' then tl s else s);
           (un, err) = ParseUint s1
       in if err = Some ErrSyntax then (0, err)
          else if \<not> neg \<and> un \<ge> 2 ^ 63 then (2 ^ 63 - 1, Some ErrRange)
          else if neg \<and> un > 2 ^ 63 then (- (2 ^ 63), Some ErrRange)
          else (if neg then - un else un, None))"

text \<open>The digit loop of the fast path of \<^verbatim>\<open>Atoi\<close>; \<open>None\<close> is its syntax error.\<close>

fun Atoi_loop :: "int \<Rightarrow> string \<Rightarrow> int option" where
  "Atoi_loop n [] = Some n"
| "Atoi_loop n (ch # s) =
     (if \<not> isdigit ch then None else Atoi_loop (n * 10 + (of_char ch - 48)) s)"

definition Atoi :: "string \<Rightarrow> int \<times> NumError option" where
  "Atoi s =
    (if 0 < length s \<and> length s < 19 then
       (let s1 = (if hd s = CHR ''-'' \<or> hd s = CHR ''+'' then tl s else s) in
        if length s1 < 1 then (0, Some ErrSyntax)
        else case Atoi_loop 0 s1 of
               None \<Rightarrow> (0, Some ErrSyntax)
             | Some n \<Rightarrow> (if hd s = CHR ''-'' then - n else n, None))
     else ParseInt s)"

text \<open>The conversion \<^verbatim>\<open>int32(val)\<close>: the low 32 bits, read as two's complement.\<close>

definition int32 :: "int \<Rightarrow> int" where
  "int32 v = (v + 2 ^ 31) mod 2 ^ 32 - 2 ^ 31"

subsection \<open>strconv.ParseFloat\<close>

text \<open>
  A \<^verbatim>\<open>float32\<close>: a finite value, an infinity (with \<open>True\<close> for the negative one) or
  NaN. A finite value is the rational it denotes; negative zero is not told from zero,
  as \<^verbatim>\<open>==\<close> of Go does not tell them apart.
\<close>

datatype float32 = Finite rat | Infinity bool | NaN

text \<open>\<^verbatim>\<open>lower(c)\<close> of package strconv: \<^verbatim>\<open>c | ('x' - 'X')\<close>, which sets bit 5.\<close>

definition lower :: "char \<Rightarrow> char" where
  "lower c = (if (of_char c :: int) div 32 mod 2 = 0 then char_of ((of_char c :: int) + 32)
              else c)"

fun commonPrefixLenIgnoreCase :: "string \<Rightarrow> string \<Rightarrow> nat" where
  "commonPrefixLenIgnoreCase (c # s) (p # prefix) =
     (if (if 65 \<le> (of_char c :: int) \<and> (of_char c :: int) \<le> 90
          then char_of ((of_char c :: int) + 32) else c) = p
      then Suc (commonPrefixLenIgnoreCase s prefix) else 0)"
| "commonPrefixLenIgnoreCase s prefix = 0"

text \<open>
  \<^verbatim>\<open>special(s)\<close>: the value and the number of bytes read when \<open>s\<close> starts with an
  infinity or NaN. The case of a sign falls through to the case of the letter \<open>i\<close>.
\<close>

definition special_inf :: "bool \<Rightarrow> nat \<Rightarrow> string \<Rightarrow> (float32 \<times> nat) option" where
  "special_inf neg nsign s =
     (let n = commonPrefixLenIgnoreCase s ''infinity'';
          n = (if 3 < n \<and> n < 8 then 3 else n)
      in if n = 3 \<or> n = 8 then Some (Infinity neg, nsign + n) else None)"

definition special :: "string \<Rightarrow> (float32 \<times> nat) option" where
  "special s =
     (if length s = 0 then None
      else if hd s = CHR ''+'' \<or> hd s = CHR ''-'' then
        special_inf (hd s = CHR ''-'') 1 (tl s)
      else if hd s = CHR ''i'' \<or> hd s = CHR ''I'' then special_inf False 0 s
      else if hd s = CHR ''n'' \<or> hd s = CHR ''N'' then
        (if commonPrefixLenIgnoreCase s ''nan'' = 3 then Some (NaN, 3) else None)
      else None)"

text \<open>
  The mantissa loop of \<^verbatim>\<open>readFloat\<close>, on the variables \<open>sawdot\<close>, \<open>sawdigits\<close>,
  \<open>nd\<close>, \<open>dp\<close>, \<open>mantissa\<close> and \<open>underscores\<close>; it returns them with the text it has
  not read. The mantissa is kept whole here. The library keeps its first 19 digits (16
  in base 16) and a flag for the rest, and from these rounds to the same value.
\<close>

fun readFloat_digits ::
  "bool \<Rightarrow> bool \<times> bool \<times> int \<times> int \<times> int \<times> bool \<Rightarrow> string
     \<Rightarrow> (bool \<times> bool \<times> int \<times> int \<times> int \<times> bool) \<times> string" where
  "readFloat_digits hex (sawdot, sawdigits, nd, dp, mantissa, underscores) [] =
     ((sawdot, sawdigits, nd, dp, mantissa, underscores), [])"
| "readFloat_digits hex (sawdot, sawdigits, nd, dp, mantissa, underscores) (c # s) =
     (if c = CHR ''_'' then
        readFloat_digits hex (sawdot, sawdigits, nd, dp, mantissa, True) s
      else if c = CHR ''.'' then
        (if sawdot then ((sawdot, sawdigits, nd, dp, mantissa, underscores), c # s)
         else readFloat_digits hex (True, sawdigits, nd, nd, mantissa, underscores) s)
      else if isdigit c then
        (if c = CHR ''0'' \<and> nd = 0 then
           readFloat_digits hex (sawdot, True, nd, dp - 1, mantissa, underscores) s
         else
           readFloat_digits hex
             (sawdot, True, nd + 1, dp,
              mantissa * (if hex then 16 else 10) + (of_char c - 48), underscores) s)
      else if hex \<and> 97 \<le> (of_char (lower c) :: int) \<and> (of_char (lower c) :: int) \<le> 102 then
        readFloat_digits hex
          (sawdot, True, nd + 1, dp, mantissa * 16 + (of_char (lower c) - 97 + 10),
           underscores) s
      else ((sawdot, sawdigits, nd, dp, mantissa, underscores), c # s))"

text \<open>The exponent loop of \<^verbatim>\<open>readFloat\<close>: the exponent stops growing at 10000.\<close>

fun readFloat_exp :: "int \<Rightarrow> bool \<Rightarrow> string \<Rightarrow> (int \<times> bool) \<times> string" where
  "readFloat_exp e underscores [] = ((e, underscores), [])"
| "readFloat_exp e underscores (c # s) =
     (if c = CHR ''_'' then readFloat_exp e True s
      else if isdigit c then
        readFloat_exp (if e < 10000 then e * 10 + (of_char c - 48) else e) underscores s
      else ((e, underscores), c # s))"

text \<open>\<^verbatim>\<open>underscoreOK\<close>: its loop on the last kind of byte seen, and the function.\<close>

fun underscoreOK_loop :: "bool \<Rightarrow> char \<Rightarrow> string \<Rightarrow> bool" where
  "underscoreOK_loop hex saw [] = (saw \<noteq> CHR ''_'')"
| "underscoreOK_loop hex saw (c # s) =
     (if isdigit c
         \<or> (hex \<and> 97 \<le> (of_char (lower c) :: int) \<and> (of_char (lower c) :: int) \<le> 102) then
        underscoreOK_loop hex (CHR ''0'') s
      else if c = CHR ''_'' then
        (if saw \<noteq> CHR ''0'' then False else underscoreOK_loop hex (CHR ''_'') s)
      else if saw = CHR ''_'' then False
      else underscoreOK_loop hex (CHR ''!'') s)"

definition underscoreOK :: "string \<Rightarrow> bool" where
  "underscoreOK s0 =
     (let s = (if length s0 \<ge> 1 \<and> (hd s0 = CHR ''-'' \<or> hd s0 = CHR ''+'') then tl s0 else s0)
      in if length s \<ge> 2 \<and> s ! 0 = CHR ''0''
            \<and> (lower (s ! 1) = CHR ''b'' \<or> lower (s ! 1) = CHR ''o''
                \<or> lower (s ! 1) = CHR ''x'') then
           underscoreOK_loop (lower (s ! 1) = CHR ''x'') (CHR ''0'') (drop 2 s)
         else underscoreOK_loop False (CHR ''^'') s)"

text \<open>
  \<^verbatim>\<open>readFloat(s)\<close>: for a well-formed number, its sign, whether it is in base 16, its
  mantissa and exponent (of 10, or of 2 in base 16) and the number of bytes read;
  \<open>None\<close> where the library returns \<^verbatim>\<open>ok = false\<close>.
\<close>

definition readFloat_end ::
  "string \<Rightarrow> bool \<Rightarrow> bool \<Rightarrow> int \<Rightarrow> int \<Rightarrow> bool \<Rightarrow> string
     \<Rightarrow> (bool \<times> bool \<times> int \<times> int \<times> nat) option" where
  "readFloat_end s neg hex mantissa exp' underscores rest =
     (let i = length s - length rest in
      if underscores \<and> \<not> underscoreOK (take i s) then None
      else Some (neg, hex, mantissa, exp', i))"

definition readFloat :: "string \<Rightarrow> (bool \<times> bool \<times> int \<times> int \<times> nat) option" where
  "readFloat s =
    (if length s = 0 then None
     else
       let neg = (hd s = CHR ''-'');
           s1 = (if hd s = CHR ''+'' \<or> hd s = CHR ''-'' then tl s else s);
           hex = (2 < length s1 \<and> s1 ! 0 = CHR ''0'' \<and> lower (s1 ! 1) = CHR ''x'');
           s2 = (if hex then drop 2 s1 else s1);
           ((sawdot, sawdigits, nd, dp, mantissa, underscores), s3) =
             readFloat_digits hex (False, False, 0, 0, 0, False) s2
       in if \<not> sawdigits then None
          else
            let dp = (if \<not> sawdot then nd else dp);
                dp = (if hex then dp * 4 else dp);
                nd = (if hex then nd * 4 else nd);
                expChar = (if hex then CHR ''p'' else CHR ''e'')
            in if s3 \<noteq> [] \<and> lower (hd s3) = expChar then
                 (let s4 = tl s3 in
                  if s4 = [] then None
                  else
                    let esign = (if hd s4 = CHR ''-'' then - 1 else 1);
                        s5 = (if hd s4 = CHR ''+'' \<or> hd s4 = CHR ''-'' then tl s4 else s4)
                    in if s5 = [] \<or> \<not> isdigit (hd s5) then None
                       else
                         let ((e, underscores), s6) = readFloat_exp 0 underscores s5
                         in readFloat_end s neg hex mantissa (dp + e * esign - nd)
                              underscores s6)
               else if hex then None
               else readFloat_end s neg hex mantissa (dp - nd) underscores s3)"

text \<open>
  The nearest \<^verbatim>\<open>float32\<close> to a magnitude \<open>q\<close>, ties to the even mantissa, as the
  library rounds: 24 bits of mantissa over the unit \<open>2 ^ k\<close> for the least \<open>k\<close> from -149 on
  that fits; the infinity and a range error when the result is out of range.
\<close>

definition pow :: "int \<Rightarrow> int \<Rightarrow> rat" where
  "pow b k = (if k \<ge> 0 then of_int b ^ nat k else 1 / of_int b ^ nat (- k))"

definition round_even :: "rat \<Rightarrow> int" where
  "round_even x =
     (let f = \<lfloor>x\<rfloor>; d = x - of_int f
      in if d < 1 / 2 then f else if 1 / 2 < d then f + 1
         else if even f then f else f + 1)"

definition round32 :: "bool \<Rightarrow> rat \<Rightarrow> float32 \<times> NumError option" where
  "round32 neg q =
     (if q \<ge> 2 ^ 128 then (Infinity neg, Some ErrRange)
      else
        let k = (case find (\<lambda>k. q / pow 2 k < 2 ^ 24) [- 149..104] of
                   Some k \<Rightarrow> k | None \<Rightarrow> 104);
            v = of_int (round_even (q / pow 2 k)) * pow 2 k
        in if v \<ge> 2 ^ 128 then (Infinity neg, Some ErrRange)
           else (Finite (if neg then - v else v), None))"

text \<open>
  \<^verbatim>\<open>atof32\<close> and \<^verbatim>\<open>ParseFloat(s, 32)\<close>, with the value returned beside each error:
  0 with every syntax error, the infinity with a range error. Where \<^verbatim>\<open>readFloat\<close>
  fails the count of bytes read is immaterial and is 0 here.
\<close>

definition atof32 :: "string \<Rightarrow> float32 \<times> nat \<times> NumError option" where
  "atof32 s =
     (case special s of
        Some (val, n) \<Rightarrow> (val, n, None)
      | None \<Rightarrow>
          (case readFloat s of
             None \<Rightarrow> (Finite 0, 0, Some ErrSyntax)
           | Some (neg, hex, mantissa, exp', n) \<Rightarrow>
               (let (f, err) = round32 neg (of_int mantissa * pow (if hex then 2 else 10) exp')
                in (f, n, err))))"

definition ParseFloat :: "string \<Rightarrow> float32 \<times> NumError option" where
  "ParseFloat s =
     (let (f, n, err) = atof32 s
      in if n \<noteq> length s \<and> err \<noteq> Some ErrSyntax then (Finite 0, Some ErrSyntax)
         else (f, err))"

subsection \<open>url.ParseQuery and url.Values\<close>

type_synonym Values = "string \<rightharpoonup> string list"

definition Get :: "Values \<Rightarrow> string \<Rightarrow> string" where
  "Get v key = (case v key of None \<Rightarrow> [] | Some vs \<Rightarrow> (if length vs = 0 then [] else vs ! 0))"

definition Has :: "Values \<Rightarrow> string \<Rightarrow> bool" where
  "Has v key = (v key \<noteq> None)"

text \<open>\<^verbatim>\<open>strings.Cut(s, sep)\<close> for a separator of one byte, without the flag.\<close>

definition Cut :: "string \<Rightarrow> char \<Rightarrow> string \<times> string" where
  "Cut s sep = (takeWhile (\<lambda>c. c \<noteq> sep) s, drop 1 (dropWhile (\<lambda>c. c \<noteq> sep) s))"

definition ishex :: "char \<Rightarrow> bool" where
  "ishex c = (let n = (of_char c :: nat) in
     (48 \<le> n \<and> n \<le> 57) \<or> (97 \<le> n \<and> n \<le> 102) \<or> (65 \<le> n \<and> n \<le> 70))"

definition unhex :: "char \<Rightarrow> int" where
  "unhex c = (let n = (of_char c :: int) in
     if 48 \<le> n \<and> n \<le> 57 then n - 48
     else if 97 \<le> n \<and> n \<le> 102 then n - 97 + 10
     else if 65 \<le> n \<and> n \<le> 70 then n - 65 + 10
     else 0)"

text \<open>\<^verbatim>\<open>url.QueryUnescape\<close>; \<open>None\<close> is its escape error.\<close>

fun unescape :: "string \<Rightarrow> string option" where
  "unescape [] = Some []"
| "unescape (c # s) =
     (if c = CHR ''%'' then
        (if length s < 2 \<or> \<not> ishex (s ! 0) \<or> \<not> ishex (s ! 1) then None
         else map_option ((#) (char_of (unhex (s ! 0) * 16 + unhex (s ! 1))))
                (unescape (drop 2 s)))
      else if c = CHR ''+'' then map_option ((#) (CHR '' '')) (unescape s)
      else map_option ((#) c) (unescape s))"

lemma Cut_shorter: "query \<noteq> [] \<Longrightarrow> length (snd (Cut query sep)) < length query"
proof -
  assume "query \<noteq> []"
  have "length (dropWhile (\<lambda>c. c \<noteq> sep) query) \<le> length query"
    by (rule length_dropWhile_le)
  then show ?thesis
    using \<open>query \<noteq> []\<close> by (cases query) (simp_all add: Cut_def)
qed

text \<open>The loop of \<^verbatim>\<open>url.ParseQuery\<close>, which the handlers call for its map alone.\<close>

function parseQuery :: "Values \<Rightarrow> string \<Rightarrow> Values" where
  "parseQuery m query =
    (if query = [] then m
     else
       let key = fst (Cut query (CHR ''&'')); query' = snd (Cut query (CHR ''&'')) in
       if CHR '';'' \<in> set key then parseQuery m query'
       else if key = [] then parseQuery m query'
       else
         let key1 = fst (Cut key (CHR ''='')); value = snd (Cut key (CHR ''='')) in
         case unescape key1 of
           None \<Rightarrow> parseQuery m query'
         | Some k \<Rightarrow>
             (case unescape value of
                None \<Rightarrow> parseQuery m query'
              | Some v \<Rightarrow>
                  parseQuery (m(k \<mapsto> (case m k of None \<Rightarrow> [] | Some vs \<Rightarrow> vs) @ [v])) query'))"
  by pat_completeness auto
termination
  by (relation "measure (\<lambda>(m, query). length query)") (auto simp: Cut_shorter)

declare parseQuery.simps [simp del]

definition ParseQuery :: "string \<Rightarrow> Values" where
  "ParseQuery query = parseQuery Map.empty query"

section \<open>Packages config and db\<close>

text \<open>
  The fields of \<^verbatim>\<open>ServerInstance\<close> and \<^verbatim>\<open>Config\<close> carry a prefix, since
  \<^verbatim>\<open>ServerStatus\<close> below has fields of the same names.
\<close>

record ServerInstance =
  srvName :: string
  srvAddress :: string
  srvConnectionAddress :: string
  srvErrorMessage :: string

record Config =
  cfgAddress :: string
  Secret :: string
  DatabaseUser :: string
  DatabasePassword :: string
  DatabaseName :: string
  Servers :: "ServerInstance list"

record RoleTime =
  ByondKey :: "string option"
  Minutes :: "int option"

record Ban =
  ID :: "int option"
  Date :: "string option"
  BanRoundID :: "int option"
  Role :: "string option"
  ExpirationDate :: "string option"
  Reason :: "string option"
  BannedKey :: "string option"
  AdminKey :: "string option"
  Edits :: "string option"
  UnbanDate :: "string option"
  UnbanKey :: "string option"

text \<open>
  The database behind package \<^verbatim>\<open>db\<close>: what each lookup of the package returns for
  its argument. The handlers record every lookup they issue.
\<close>

record database =
  GetTopMinutes :: "string \<Rightarrow> RoleTime list"
  GetBanByID :: "int \<Rightarrow> Ban \<times> bool"
  GetBan :: "string \<Rightarrow> Ban list \<times> bool"

datatype db_call = CallGetTopMinutes string | CallGetBanByID int | CallGetBan string

section \<open>Package api: the response cache\<close>

text \<open>
  A \<^verbatim>\<open>time.Duration\<close> is a signed 64-bit count of nanoseconds. A \<^verbatim>\<open>time.Time\<close> is
  the number of nanoseconds since the zero time \<^verbatim>\<open>time.Time{}\<close>, on one clock.
\<close>

type_synonym Duration = "64 word"

type_synonym Time = int

definition Second :: Duration where
  "Second = 1000000000"

definition Hour :: Duration where
  "Hour = 3600 * Second"

definition maxDuration :: int where
  "maxDuration = 2 ^ 63 - 1"

definition minDuration :: int where
  "minDuration = - (2 ^ 63)"

text \<open>
  \<^verbatim>\<open>time.Since(t)\<close> when the clock reads \<open>now\<close>: the difference, held at the largest
  or smallest duration when it does not fit 64 bits.
\<close>

definition Since :: "Time \<Rightarrow> Time \<Rightarrow> Duration" where
  "Since now t =
    (if now - t > maxDuration then word_of_int maxDuration
     else if now - t < minDuration then word_of_int minDuration
     else word_of_int (now - t))"

record 'a CachedResponse =
  Cooldown :: Duration
  LastAccess :: Time
  Var :: 'a

definition ShouldRefreshResponse :: "Time \<Rightarrow> 'a CachedResponse \<Rightarrow> bool" where
  "ShouldRefreshResponse now response =
     (sint (Since now (LastAccess response)) \<ge> sint (Cooldown response))"

definition Init :: "Duration \<Rightarrow> 'a CachedResponse \<Rightarrow> 'a CachedResponse" where
  "Init cooldown w = w\<lparr>Cooldown := cooldown, LastAccess := 0\<rparr>"

section \<open>Package api: responses and requests\<close>

definition ResponseFail :: int where
  "ResponseFail = 0"

definition ResponseSuccess :: int where
  "ResponseSuccess = 1"

definition ResponseDenied :: int where
  "ResponseDenied = 2"

definition ResponseBadAuth :: int where
  "ResponseBadAuth = 3"

text \<open>
  The status record. The parser of its four float measurements is a parameter of the
  functions that decode a status; the handlers of the program run with \<open>to_f32\<close> below.
\<close>

record ServerStatus =
  Name :: string
  ServerStatus :: int
  ErrorMessage :: string
  RoundID :: int
  Hub :: bool
  Players :: int
  Admins :: int
  Map :: string
  SecurityLevel :: string
  RoundDuration :: int
  GameState :: int
  TimeDilation :: float32
  TimeDilationAvg :: float32
  TimeDilationSlow :: float32
  TimeDilationFast :: float32
  ShuttleMode :: string
  ShuttleTime :: int
  ConnectionInfo :: string

text \<open>The bodies that the handlers put in a response: the instances of \<^verbatim>\<open>T\<close>.\<close>

datatype body =
    BodyInt int
  | BodyServers "ServerStatus list"
  | BodyRoleTimes "RoleTime list"
  | BodyBan Ban
  | BodyBans "Ban list"

record GenericHeader =
  Status :: int
  Reason :: string
  Body :: body

text \<open>
  What a handler reads and writes: the two package-level caches, the documents encoded
  to the \<^verbatim>\<open>http.ResponseWriter\<close> so far, and the database lookups issued so far.
\<close>

record api =
  serverResponseW :: "ServerStatus list CachedResponse"
  playTimeLeaderboardW :: "RoleTime list CachedResponse"
  written :: "GenericHeader list"
  lookups :: "db_call list"

text \<open>A request: the raw query of its URL and the value of its \<^verbatim>\<open>token\<close> header.\<close>

record Request =
  RawQuery :: string
  token_header :: string

definition Query :: "Request \<Rightarrow> Values" where
  "Query r = ParseQuery (RawQuery r)"

text \<open>
  \<^verbatim>\<open>json.NewEncoder(w).Encode(v)\<close> marshals the whole document before it writes any of
  it, and fails on a float that is NaN or infinite. \<^verbatim>\<open>WriteJson\<close> drops the error: the
  document is written when every float in it is finite, and nothing is written otherwise.
\<close>

definition isfinite :: "float32 \<Rightarrow> bool" where
  "isfinite f = (case f of Finite x \<Rightarrow> True | Infinity neg \<Rightarrow> False | NaN \<Rightarrow> False)"

definition encodable_status :: "ServerStatus \<Rightarrow> bool" where
  "encodable_status r =
     (isfinite (TimeDilation r) \<and> isfinite (TimeDilationAvg r)
      \<and> isfinite (TimeDilationSlow r) \<and> isfinite (TimeDilationFast r))"

fun encodable :: "body \<Rightarrow> bool" where
  "encodable (BodyServers rs) = list_all encodable_status rs"
| "encodable (BodyInt n) = True"
| "encodable (BodyRoleTimes rows) = True"
| "encodable (BodyBan ban) = True"
| "encodable (BodyBans bans) = True"

definition WriteJson :: "api \<Rightarrow> GenericHeader \<Rightarrow> api" where
  "WriteJson st v = (if encodable (Body v) then st\<lparr>written := written st @ [v]\<rparr> else st)"

definition WriteHeaderResponseCustom :: "api \<Rightarrow> int \<Rightarrow> string \<Rightarrow> body \<Rightarrow> api" where
  "WriteHeaderResponseCustom st status reason body =
     WriteJson st \<lparr>Status = status, Reason = reason, Body = body\<rparr>"

definition WriteHeaderResponse :: "api \<Rightarrow> int \<Rightarrow> body \<Rightarrow> api" where
  "WriteHeaderResponse st status body =
    (if status = ResponseFail then WriteHeaderResponseCustom st status ''fail'' (BodyInt 0)
     else if status = ResponseSuccess then WriteHeaderResponseCustom st status ''success'' body
     else if status = ResponseDenied then WriteHeaderResponseCustom st status ''denied'' (BodyInt 0)
     else if status = ResponseBadAuth then
       WriteHeaderResponseCustom st status ''bad auth'' (BodyInt 0)
     else st)"

definition Confidential :: "Config \<Rightarrow> Request \<Rightarrow> api \<Rightarrow> bool \<times> api" where
  "Confidential cfg r st =
    (if token_header r \<noteq> Secret cfg then (False, WriteHeaderResponse st ResponseBadAuth (BodyInt 0))
     else (True, st))"

definition url_to_int :: "Values \<Rightarrow> string \<Rightarrow> int" where
  "url_to_int u v = int32 (fst (Atoi (Get u v)))"

definition url_to_f32 :: "(string \<Rightarrow> float32) \<Rightarrow> Values \<Rightarrow> string \<Rightarrow> float32" where
  "url_to_f32 ParseFloat32 u v = ParseFloat32 (Get u v)"

definition to_f32 :: "string \<Rightarrow> float32" where
  "to_f32 v = fst (ParseFloat v)"

section \<open>Package api: the handlers\<close>

text \<open>
  The record that one iteration of the loop in \<^verbatim>\<open>StatusCb\<close> appends for a server:
  the zero value \<^verbatim>\<open>ServerStatus{}\<close> with the base server info, and the fields of the
  status topic when the server answers with a string.
\<close>

definition base_status :: "ServerInstance \<Rightarrow> ServerStatus" where
  "base_status server =
     \<lparr>Name = srvName server, ServerStatus = 0, ErrorMessage = srvErrorMessage server,
      RoundID = 0, Hub = False, Players = 0, Admins = 0, Map = [],
      SecurityLevel = [], RoundDuration = 0, GameState = 0,
      TimeDilation = Finite 0, TimeDilationAvg = Finite 0,
      TimeDilationSlow = Finite 0, TimeDilationFast = Finite 0,
      ShuttleMode = [], ShuttleTime = 0,
      ConnectionInfo = srvConnectionAddress server\<rparr>"

definition server_status ::
  "network \<Rightarrow> (string \<Rightarrow> float32) \<Rightarrow> ServerInstance \<Rightarrow> ServerStatus" where
  "server_status net ParseFloat32 server =
    (let (err, dataType, data) = Topic net (srvAddress server) ''?status'';
         status = base_status server
     in if err \<noteq> None \<or> dataType \<noteq> TopicTypeString then status
        else
          let u = ParseQuery data in
          status\<lparr>ServerStatus := 1,
                 RoundID := url_to_int u ''round_id'',
                 Hub := (url_to_int u ''hub'' = 1),
                 Players := url_to_int u ''players'',
                 Admins := url_to_int u ''admins'',
                 Map := Get u ''map_name'',
                 SecurityLevel := Get u ''security_level'',
                 RoundDuration := url_to_int u ''round_duration'',
                 GameState := url_to_int u ''gamestate'',
                 TimeDilation := url_to_f32 ParseFloat32 u ''time_dilation_current'',
                 TimeDilationAvg := url_to_f32 ParseFloat32 u ''time_dilation_avg'',
                 TimeDilationSlow := url_to_f32 ParseFloat32 u ''time_dilation_avg_slow'',
                 TimeDilationFast := url_to_f32 ParseFloat32 u ''time_dilation_avg_fast'',
                 ShuttleMode := Get u ''shuttle_mode'',
                 ShuttleTime := url_to_int u ''shuttle_time''\<rparr>)"

text \<open>
  A refresh is a sequence of assignments to a package-level cache. It is kept as the
  list of its statements, in the order the handler runs them, so that the state between
  any two of them can be named: that is the state another request finds when it is
  served while the refresh is under way.
\<close>

definition exec :: "('s \<Rightarrow> 's) list \<Rightarrow> 's \<Rightarrow> 's" where
  "exec stmts s = foldl (\<lambda>s stmt. stmt s) s stmts"

text \<open>
  Every request runs in a goroutine of its own, so two requests that both find the
  cache stale both refresh it, and their statements run in some interleaving. In this
  one the second refresh sets the last access and clears the value after the first has,
  and the appends of the first and then of the second follow.
\<close>

definition overlapped :: "('s \<Rightarrow> 's) list \<Rightarrow> ('s \<Rightarrow> 's) list \<Rightarrow> ('s \<Rightarrow> 's) list" where
  "overlapped a b = take 2 a @ take 2 b @ drop 2 a @ drop 2 b"

definition StatusCb_refresh ::
  "network \<Rightarrow> (string \<Rightarrow> float32) \<Rightarrow> Config \<Rightarrow> Time \<Rightarrow> (api \<Rightarrow> api) list" where
  "StatusCb_refresh net ParseFloat32 cfg now =
     [\<lambda>st. st\<lparr>serverResponseW := (serverResponseW st)\<lparr>LastAccess := now\<rparr>\<rparr>,
      \<lambda>st. st\<lparr>serverResponseW := (serverResponseW st)\<lparr>Var := []\<rparr>\<rparr>]
     @ map (\<lambda>server st.
              st\<lparr>serverResponseW := (serverResponseW st)
                    \<lparr>Var := Var (serverResponseW st) @ [server_status net ParseFloat32 server]\<rparr>\<rparr>)
         (Servers cfg)"

definition StatusCb ::
  "network \<Rightarrow> (string \<Rightarrow> float32) \<Rightarrow> Config \<Rightarrow> Time \<Rightarrow> Request \<Rightarrow> api \<Rightarrow> api" where
  "StatusCb net ParseFloat32 cfg now r st =
    (let st1 = (if ShouldRefreshResponse now (serverResponseW st)
                then exec (StatusCb_refresh net ParseFloat32 cfg now) st else st)
     in WriteHeaderResponse st1 ResponseSuccess (BodyServers (Var (serverResponseW st1))))"

definition PlayerLeaderboardCb_refresh :: "database \<Rightarrow> Time \<Rightarrow> (api \<Rightarrow> api) list" where
  "PlayerLeaderboardCb_refresh db now =
     [\<lambda>st. st\<lparr>playTimeLeaderboardW := (playTimeLeaderboardW st)\<lparr>LastAccess := now\<rparr>\<rparr>,
      \<lambda>st. st\<lparr>playTimeLeaderboardW := (playTimeLeaderboardW st)\<lparr>Var := []\<rparr>\<rparr>,
      \<lambda>st. st\<lparr>lookups := lookups st @ [CallGetTopMinutes ''Living'']\<rparr>]
     @ map (\<lambda>v st.
              st\<lparr>playTimeLeaderboardW := (playTimeLeaderboardW st)
                    \<lparr>Var := Var (playTimeLeaderboardW st)
                        @ [\<lparr>ByondKey = ByondKey v, Minutes = Minutes v\<rparr>]\<rparr>\<rparr>)
         (GetTopMinutes db ''Living'')"

definition PlayerLeaderboardCb ::
  "Config \<Rightarrow> database \<Rightarrow> Time \<Rightarrow> Request \<Rightarrow> api \<Rightarrow> api" where
  "PlayerLeaderboardCb cfg db now r st =
    (let job = Get (Query r) ''job'' in
     if length job > 0 then
       (let (ok, st1) = Confidential cfg r st in
        if \<not> ok then st1
        else
          let data = GetTopMinutes db job;
              st2 = st1\<lparr>lookups := lookups st1 @ [CallGetTopMinutes job]\<rparr>;
              playTimes = foldl (\<lambda>playTimes v.
                            playTimes @ [\<lparr>ByondKey = ByondKey v, Minutes = Minutes v\<rparr>]) [] data
          in WriteHeaderResponse st2 ResponseSuccess (BodyRoleTimes playTimes))
     else
       (let st1 = (if ShouldRefreshResponse now (playTimeLeaderboardW st)
                   then exec (PlayerLeaderboardCb_refresh db now) st else st)
        in WriteHeaderResponse st1 ResponseSuccess
             (BodyRoleTimes (Var (playTimeLeaderboardW st1)))))"

definition BanCheckCb :: "Config \<Rightarrow> database \<Rightarrow> Request \<Rightarrow> api \<Rightarrow> api" where
  "BanCheckCb cfg db r st =
    (let (ok, st1) = Confidential cfg r st in
     if \<not> ok then st1
     else
       let q = Query r; status = ResponseFail in
       if Has q ''id'' then
         (let banID = url_to_int q ''id'';
              (ban, success) = GetBanByID db banID;
              st2 = st1\<lparr>lookups := lookups st1 @ [CallGetBanByID banID]\<rparr>;
              status = (if success then ResponseSuccess else status)
          in WriteHeaderResponse st2 status (BodyBan ban))
       else if Has q ''ckey'' then
         (let ckey = Get q ''ckey'';
              (ban, success) = GetBan db ckey;
              st2 = st1\<lparr>lookups := lookups st1 @ [CallGetBan ckey]\<rparr>;
              status = (if success then ResponseSuccess else status)
          in WriteHeaderResponse st2 status (BodyBans ban))
       else st1)"

text \<open>
  The package-level variables when the program starts (every field the zero value of
  its type), with nothing written and no lookup issued, and \<^verbatim>\<open>InitV1\<close> on them.
\<close>

definition start :: "api" where
  "start = \<lparr>serverResponseW = \<lparr>Cooldown = 0, LastAccess = 0, Var = []\<rparr>,
            playTimeLeaderboardW = \<lparr>Cooldown = 0, LastAccess = 0, Var = []\<rparr>,
            written = [], lookups = []\<rparr>"

definition InitV1 :: "api \<Rightarrow> api" where
  "InitV1 st =
     st\<lparr>serverResponseW := Init (5 * Second) (serverResponseW st),
        playTimeLeaderboardW := Init (1 * Hour) (playTimeLeaderboardW st)\<rparr>"

section \<open>Example inputs\<close>

text \<open>
  A network on which nothing listens, the server list with the one server \<open>A\<close> at
  \<open>127.0.0.1:9999\<close>, a float parser for the examples, a moment of the year 2023 on the
  clock, and a request without query and without token.
\<close>

definition no_listener :: network where
  "no_listener = (\<lambda>address. Inl DialError)"

definition server_A :: ServerInstance where
  "server_A = \<lparr>srvName = ''A'', srvAddress = ''127.0.0.1:9999'',
               srvConnectionAddress = ''byond://127.0.0.1:9999'',
               srvErrorMessage = ''unreachable''\<rparr>"

definition config_A :: Config where
  "config_A = \<lparr>cfgAddress = '':3000'', Secret = ''hunter2'', DatabaseUser = ''api'',
               DatabasePassword = ''pw'', DatabaseName = ''apidatabase'',
               Servers = [server_A]\<rparr>"

definition zero_floats :: "string \<Rightarrow> float32" where
  "zero_floats s = Finite 0"

definition clock_2023 :: Time where
  "clock_2023 = 63800000000000000000"

definition plain_request :: Request where
  "plain_request = \<lparr>RawQuery = [], token_header = []\<rparr>"

text \<open>
  A database with two rows of play time and no ban, and the request for the leaderboard
  of the job \<open>Doctor\<close> that presents a given token.
\<close>

definition no_ban :: Ban where
  "no_ban = \<lparr>ID = None, Date = None, BanRoundID = None, Role = None, ExpirationDate = None,
             Reason = None, BannedKey = None, AdminKey = None, Edits = None,
             UnbanDate = None, UnbanKey = None\<rparr>"

definition two_rows :: database where
  "two_rows = \<lparr>GetTopMinutes = (\<lambda>job. [\<lparr>ByondKey = Some ''alice'', Minutes = Some 90\<rparr>,
                                         \<lparr>ByondKey = Some ''bob'', Minutes = Some 30\<rparr>]),
               GetBanByID = (\<lambda>banID. (no_ban, False)),
               GetBan = (\<lambda>ckey. ([], True))\<rparr>"

definition doctor_request :: "string \<Rightarrow> Request" where
  "doctor_request tok = \<lparr>RawQuery = ''job=Doctor'', token_header = tok\<rparr>"

text \<open>
  Peers that answer any request with one frame, delivered whole: a body of two bytes; the
  string \<open>a=1\<close>; a body of three bytes under the null tag; the status of the scenario
  \<open>round_id=5&players=10&map_name=Box\<close>; a player count of twenty digits; a time
  dilation beyond the range of a \<^verbatim>\<open>float32\<close>.
\<close>

definition short_reply :: "byte list \<Rightarrow> conn" where
  "short_reply req = [[CHR 0x00, CHR 0x83, CHR 0x00, CHR 0x02, CHR 0x06, CHR 0x41]]"

definition string_reply :: "byte list \<Rightarrow> conn" where
  "string_reply req = [[CHR 0x00, CHR 0x83, CHR 0x00, CHR 0x05, CHR 0x06] @ ''a=1'' @ [CHR 0x00]]"

definition null_reply :: "byte list \<Rightarrow> conn" where
  "null_reply req = [[CHR 0x00, CHR 0x83, CHR 0x00, CHR 0x03, CHR 0x00, CHR 0x01, CHR 0x02]]"




section \<open>Facts about the topic client\<close>

lemma conn_Read_length: "length (fst (conn_Read s n)) = n"
  by (cases s) auto

lemma intstring_ascii: "0 \<le> v \<Longrightarrow> v \<le> 0x7F \<Longrightarrow> intstring v = [char_of v]"
  by (simp add: intstring_def)

lemma of_char_char_of_int:
  "0 \<le> (n::int) \<Longrightarrow> n < 256 \<Longrightarrow> (of_char (char_of n) :: nat) = nat n"
proof -
  assume range: "0 \<le> n" "n < 256"
  have "int (of_char (char_of n) :: nat) = (of_char (char_of n) :: int)"
    by (simp add: of_nat_of_char)
  also have "\<dots> = n mod 256"
    by (simp add: of_char_of)
  also have "\<dots> = n"
    using range by simp
  finally show ?thesis by simp
qed

text \<open>
  Up to 121 bytes of payload the length \<open>len(data)+6\<close> is below 128 and
  \<^verbatim>\<open>string(len(data)+6)\<close> is the one byte of that value: the frame has the layout of
  the wire format and the parser gives the payload back.
\<close>

lemma request_frame_short:
  assumes "length data \<le> 121"
  shows "request_frame data =
     [CHR 0x00, CHR 0x83, CHR 0x00, char_of (int (length data) + 6),
      CHR 0x00, CHR 0x00, CHR 0x00, CHR 0x00, CHR 0x00] @ data @ [CHR 0x00]"
  using assms by (simp add: request_frame_def intstring_def)

lemma request_roundtrip_short:
  assumes "length data \<le> 121"
  shows "decode_request (request_frame data) = Some data"
  using assms
  by (simp add: request_frame_short decode_request_def Uint16_def Let_def
      of_char_char_of_int nat_add_distrib)

text \<open>From 122 bytes on, the length is written as two bytes of UTF-8.\<close>

lemma request_frame_two_byte_length:
  assumes "122 \<le> length data" and "length data \<le> 2041"
  shows "request_frame data =
     [CHR 0x00, CHR 0x83, CHR 0x00,
      char_of (0xC0 + (int (length data) + 6) div 64),
      char_of (0x80 + (int (length data) + 6) mod 64),
      CHR 0x00, CHR 0x00, CHR 0x00, CHR 0x00, CHR 0x00] @ data @ [CHR 0x00]"
  using assms by (simp add: request_frame_def intstring_def)

text \<open>
  C3. For every ASCII payload the request frame is
  \<open>[0x00 0x83][0x00][len+6][0x00 five times][payload][0x00]\<close>, the length being one
  byte, and a parser of the format recovers the payload. The code breaks this for a
  payload of 122 bytes: \<^verbatim>\<open>string(len(data)+6)\<close> is the UTF-8 encoding of the code
  point 128, the two bytes \<open>0xC2 0x80\<close>, where the format has the one byte \<open>0x80\<close>. The
  frame is one byte too long and the parser rejects it.
\<close>

theorem request_frame_long_payload:
  "take 6 (request_frame (replicate 122 (CHR ''a''))) =
     [CHR 0x00, CHR 0x83, CHR 0x00, CHR 0xC2, CHR 0x80, CHR 0x00]
   \<and> length (request_frame (replicate 122 (CHR ''a''))) = 133
   \<and> decode_request (request_frame (replicate 122 (CHR ''a''))) = None"
  by (simp add: request_frame_two_byte_length decode_request_def Uint16_def Let_def
      char_of_def)

text \<open>The payload of 122 bytes does not come back from its frame.\<close>

theorem request_frame_long_payload_witness:
  "decode_request (request_frame (replicate 122 (CHR ''a''))) \<noteq> Some (replicate 122 (CHR ''a''))
   \<and> length (request_frame (replicate 122 (CHR ''a''))) \<noteq> 122 + 10"
  using request_frame_long_payload by simp

text \<open>
  C2. A response that arrives in several deliveries gives the same result as the same
  response in one delivery. The code breaks this: it calls \<^verbatim>\<open>Read\<close> once for the
  header and once for the body. The frame with the body \<open>0x06 a=1 0x00\<close> gives the
  string tag and the payload when it arrives whole; when its header arrives in two
  halves the size is read as 0 and the result is the null tag with no payload.
\<close>

theorem Topic_partial_read:
  "Topic (\<lambda>a. Inr (\<lambda>req. [[CHR 0x00, CHR 0x83, CHR 0x00, CHR 0x05, CHR 0x06]
                              @ ''a=1'' @ [CHR 0x00]]))
      ''127.0.0.1:1337'' ''?status'' = (None, 6, ''a=1'' @ [CHR 0x00])
   \<and> Topic (\<lambda>a. Inr (\<lambda>req. [[CHR 0x00, CHR 0x83],
                                [CHR 0x00, CHR 0x05, CHR 0x06] @ ''a=1'' @ [CHR 0x00]]))
      ''127.0.0.1:1337'' ''?status'' = (None, 0, [])"
  by (simp add: Topic_def Let_def BYOND_PACKET_HEADER_SIZE_def Uint16_def TopicTypeNull_def)

text \<open>The two deliveries of the one frame give different results.\<close>

theorem Topic_partial_read_witness:
  "Topic (\<lambda>a. Inr (\<lambda>req. [[CHR 0x00, CHR 0x83],
                                [CHR 0x00, CHR 0x05, CHR 0x06] @ ''a=1'' @ [CHR 0x00]]))
      ''127.0.0.1:1337'' ''?status''
   \<noteq> Topic (\<lambda>a. Inr (\<lambda>req. [[CHR 0x00, CHR 0x83, CHR 0x00, CHR 0x05, CHR 0x06]
                              @ ''a=1'' @ [CHR 0x00]]))
      ''127.0.0.1:1337'' ''?status''"
  using Topic_partial_read by simp

lemma of_char_eq_0_iff: "(of_char c :: nat) = 0 \<longleftrightarrow> c = CHR 0x00"
proof -
  have "(of_char c :: nat) = of_char (CHR 0x00) \<longleftrightarrow> c = CHR 0x00"
    by (rule of_char_eq_iff)
  then show ?thesis by simp
qed

text \<open>
  C6, as the code has it. \<^verbatim>\<open>Topic\<close> returns an error exactly when the dial fails.
  When the dial succeeds, the body it holds is as long as the size declared in the header
  it read. A body of at most two bytes gives the null tag and no payload, whatever its
  bytes. A longer body gives its first byte as the tag; the payload is the rest of the
  body when that byte is not zero, and no payload at all when it is zero (the null tag).
\<close>

theorem Topic_classification:
  "(fst (Topic net address data) \<noteq> None \<longleftrightarrow> (\<exists>err. net address = Inl err))
   \<and> (net address = Inr peer
        \<and> conn_Read (peer (request_frame data)) BYOND_PACKET_HEADER_SIZE = (hdr, rest)
        \<and> conn_Read rest (Uint16 (drop 2 hdr)) = (body, rest') \<longrightarrow>
       length body = Uint16 (drop 2 hdr)
       \<and> (length body \<le> 2 \<longrightarrow> Topic net address data = (None, TopicTypeNull, []))
       \<and> (2 < length body \<and> body ! 0 = CHR 0x00 \<longrightarrow>
            Topic net address data = (None, TopicTypeNull, []))
       \<and> (2 < length body \<and> body ! 0 \<noteq> CHR 0x00 \<longrightarrow>
            Topic net address data = (None, int (of_char (body ! 0)), drop 1 body)))"
proof -
  have err: "fst (Topic net address data) \<noteq> None \<longleftrightarrow> (\<exists>err. net address = Inl err)"
    by (cases "net address") (simp_all add: Topic_def Let_def split: prod.splits)
  have ok: "length body = Uint16 (drop 2 hdr)
       \<and> (length body \<le> 2 \<longrightarrow> Topic net address data = (None, TopicTypeNull, []))
       \<and> (2 < length body \<and> body ! 0 = CHR 0x00 \<longrightarrow>
            Topic net address data = (None, TopicTypeNull, []))
       \<and> (2 < length body \<and> body ! 0 \<noteq> CHR 0x00 \<longrightarrow>
            Topic net address data = (None, int (of_char (body ! 0)), drop 1 body))"
    if dial: "net address = Inr peer"
      and hdr: "conn_Read (peer (request_frame data)) BYOND_PACKET_HEADER_SIZE = (hdr, rest)"
      and body: "conn_Read rest (Uint16 (drop 2 hdr)) = (body, rest')"
  proof -
    have len: "length body = Uint16 (drop 2 hdr)"
      using conn_Read_length [of rest "Uint16 (drop 2 hdr)"] body by simp
    show ?thesis
      using len dial hdr body
      by (simp add: Topic_def Let_def TopicTypeNull_def of_char_eq_0_iff)
  qed
  show ?thesis
    using err ok by blast
qed

text \<open>
  Nothing listening gives the error; a body of the two bytes \<open>0x06 0x41\<close> gives the
  null tag; the string \<open>a=1\<close> gives the string tag and the bytes after the tag.
\<close>

theorem Topic_classification_witness:
  "(\<exists>err. no_listener ''127.0.0.1:9999'' = Inl err)
   \<and> fst (Topic no_listener ''127.0.0.1:9999'' ''?status'') \<noteq> None
   \<and> conn_Read (short_reply (request_frame ''?status'')) BYOND_PACKET_HEADER_SIZE
       = ([CHR 0x00, CHR 0x83, CHR 0x00, CHR 0x02], [[CHR 0x06, CHR 0x41]])
   \<and> conn_Read [[CHR 0x06, CHR 0x41]] (Uint16 (drop 2 [CHR 0x00, CHR 0x83, CHR 0x00, CHR 0x02]))
       = ([CHR 0x06, CHR 0x41], [])
   \<and> length [CHR 0x06, CHR 0x41] \<le> 2
   \<and> Topic (\<lambda>a. Inr short_reply) ''127.0.0.1:1337'' ''?status'' = (None, TopicTypeNull, [])
   \<and> conn_Read (string_reply (request_frame ''?status'')) BYOND_PACKET_HEADER_SIZE
       = ([CHR 0x00, CHR 0x83, CHR 0x00, CHR 0x05], [[CHR 0x06] @ ''a=1'' @ [CHR 0x00]])
   \<and> conn_Read [[CHR 0x06] @ ''a=1'' @ [CHR 0x00]]
         (Uint16 (drop 2 [CHR 0x00, CHR 0x83, CHR 0x00, CHR 0x05]))
       = ([CHR 0x06] @ ''a=1'' @ [CHR 0x00], [])
   \<and> 2 < length ([CHR 0x06] @ ''a=1'' @ [CHR 0x00])
   \<and> ([CHR 0x06] @ ''a=1'' @ [CHR 0x00]) ! 0 \<noteq> CHR 0x00
   \<and> Topic (\<lambda>a. Inr string_reply) ''127.0.0.1:1337'' ''?status''
       = (None, TopicTypeString, ''a=1'' @ [CHR 0x00])"
proof -
  have dial: "\<exists>err. no_listener ''127.0.0.1:9999'' = Inl err"
    by (simp add: no_listener_def)
  have short:
    "conn_Read (short_reply (request_frame ''?status'')) BYOND_PACKET_HEADER_SIZE
       = ([CHR 0x00, CHR 0x83, CHR 0x00, CHR 0x02], [[CHR 0x06, CHR 0x41]])"
    "conn_Read [[CHR 0x06, CHR 0x41]] (Uint16 (drop 2 [CHR 0x00, CHR 0x83, CHR 0x00, CHR 0x02]))
       = ([CHR 0x06, CHR 0x41], [])"
    by (simp_all add: short_reply_def BYOND_PACKET_HEADER_SIZE_def Uint16_def)
  have string:
    "conn_Read (string_reply (request_frame ''?status'')) BYOND_PACKET_HEADER_SIZE
       = ([CHR 0x00, CHR 0x83, CHR 0x00, CHR 0x05], [[CHR 0x06] @ ''a=1'' @ [CHR 0x00]])"
    "conn_Read [[CHR 0x06] @ ''a=1'' @ [CHR 0x00]]
         (Uint16 (drop 2 [CHR 0x00, CHR 0x83, CHR 0x00, CHR 0x05]))
       = ([CHR 0x06] @ ''a=1'' @ [CHR 0x00], [])"
    by (simp_all add: string_reply_def BYOND_PACKET_HEADER_SIZE_def Uint16_def)
  have sizes: "length [CHR 0x06, CHR 0x41] \<le> 2"
    "2 < length ([CHR 0x06] @ ''a=1'' @ [CHR 0x00])"
    "([CHR 0x06] @ ''a=1'' @ [CHR 0x00]) ! 0 \<noteq> CHR 0x00"
    by simp_all
  have c0: "fst (Topic no_listener ''127.0.0.1:9999'' ''?status'') \<noteq> None"
    using Topic_classification [where net = no_listener and address = "''127.0.0.1:9999''"
        and data = "''?status''"] dial
    by blast
  have c1: "Topic (\<lambda>a. Inr short_reply) ''127.0.0.1:1337'' ''?status''
      = (None, TopicTypeNull, [])"
    using Topic_classification [where net = "\<lambda>a. Inr short_reply"
        and address = "''127.0.0.1:1337''" and data = "''?status''" and peer = short_reply
        and hdr = "[CHR 0x00, CHR 0x83, CHR 0x00, CHR 0x02]" and rest = "[[CHR 0x06, CHR 0x41]]"
        and body = "[CHR 0x06, CHR 0x41]" and rest' = "[]"] short sizes
    by blast
  have "Topic (\<lambda>a. Inr string_reply) ''127.0.0.1:1337'' ''?status''
      = (None, int (of_char (([CHR 0x06] @ ''a=1'' @ [CHR 0x00]) ! 0)),
         drop 1 ([CHR 0x06] @ ''a=1'' @ [CHR 0x00]))"
    using Topic_classification [where net = "\<lambda>a. Inr string_reply"
        and address = "''127.0.0.1:1337''" and data = "''?status''" and peer = string_reply
        and hdr = "[CHR 0x00, CHR 0x83, CHR 0x00, CHR 0x05]"
        and rest = "[[CHR 0x06] @ ''a=1'' @ [CHR 0x00]]"
        and body = "[CHR 0x06] @ ''a=1'' @ [CHR 0x00]" and rest' = "[]"] string sizes
    by blast
  then have c2: "Topic (\<lambda>a. Inr string_reply) ''127.0.0.1:1337'' ''?status''
      = (None, TopicTypeString, ''a=1'' @ [CHR 0x00])"
    by (simp add: TopicTypeString_def)
  show ?thesis
    using dial short string sizes c0 c1 c2 by blast
qed

text \<open>
  C6 as stated fails. A body of the three bytes \<open>0x00 0x01 0x02\<close> is longer than two
  bytes and its first byte is the tag, but the payload returned is empty and not the two
  bytes that follow the tag.
\<close>

theorem Topic_classification_counterexample:
  "Topic (\<lambda>a. Inr null_reply) ''127.0.0.1:1337'' ''?status'' = (None, 0, [])
   \<and> null_reply (request_frame ''?status'')
       = [[CHR 0x00, CHR 0x83, CHR 0x00, CHR 0x03] @ [CHR 0x00, CHR 0x01, CHR 0x02]]
   \<and> drop 1 [CHR 0x00, CHR 0x01, CHR 0x02] \<noteq> ([] :: byte list)"
  by (simp add: Topic_def Let_def BYOND_PACKET_HEADER_SIZE_def Uint16_def TopicTypeNull_def
      null_reply_def)

section \<open>Facts about the response cache\<close>

lemma sint_word_of_int_64:
  "- (2 ^ 63) \<le> x \<Longrightarrow> x < 2 ^ 63 \<Longrightarrow> sint (word_of_int x :: 64 word) = x"
  by (simp add: int_word_sint)

lemma sint_Since:
  "sint (Since now t) =
     (if now - t > maxDuration then maxDuration
      else if now - t < minDuration then minDuration else now - t)"
proof -
  have "sint (word_of_int (now - t) :: 64 word) = now - t"
    if "\<not> now - t > maxDuration" and "\<not> now - t < minDuration"
    using that by (intro sint_word_of_int_64) (simp_all add: maxDuration_def minDuration_def)
  moreover have "sint (word_of_int maxDuration :: 64 word) = maxDuration"
    by (simp add: maxDuration_def)
  moreover have "sint (word_of_int minDuration :: 64 word) = minDuration"
    by (simp add: minDuration_def)
  ultimately show ?thesis
    unfolding Since_def by presburger
qed

lemma sint_Duration_bounds:
  "minDuration \<le> sint (d :: Duration)" "sint (d :: Duration) \<le> maxDuration"
  using sint_ge [of d] sint_lt [of d] by (simp_all add: minDuration_def maxDuration_def)

lemma ShouldRefreshResponse_iff:
  assumes "LastAccess c \<le> now"
  shows "ShouldRefreshResponse now c \<longleftrightarrow> sint (Cooldown c) \<le> now - LastAccess c"
  using assms sint_Duration_bounds [of "Cooldown c"]
  by (auto simp: ShouldRefreshResponse_def sint_Since minDuration_def)

lemma sint_Hour: "sint Hour = 3600000000000"
  by (simp add: Hour_def Second_def)

lemma sint_five_Second: "sint (5 * Second) = 5000000000"
  by (simp add: Second_def)

section \<open>Facts about the handlers\<close>

lemma StatusCb_loop:
  "foldl (\<lambda>s stmt. stmt s) st
     (map (\<lambda>server st.
              st\<lparr>serverResponseW := (serverResponseW st)
                    \<lparr>Var := Var (serverResponseW st) @ [f server]\<rparr>\<rparr>) servers) =
   st\<lparr>serverResponseW := (serverResponseW st)
        \<lparr>Var := Var (serverResponseW st) @ map f servers\<rparr>\<rparr>"
  by (induction servers arbitrary: st) simp_all


lemma StatusCb_refresh_all:
  "exec (StatusCb_refresh net pf cfg now) st =
     st\<lparr>serverResponseW := (serverResponseW st)
          \<lparr>LastAccess := now, Var := map (server_status net pf) (Servers cfg)\<rparr>\<rparr>"
  by (simp add: exec_def StatusCb_refresh_def StatusCb_loop)


lemma StatusCb_stale:
  assumes "ShouldRefreshResponse now (serverResponseW st)"
  shows "StatusCb net pf cfg now r st =
     st\<lparr>serverResponseW := (serverResponseW st)
          \<lparr>LastAccess := now, Var := map (server_status net pf) (Servers cfg)\<rparr>,
        written := written st @
        (if encodable (BodyServers (map (server_status net pf) (Servers cfg))) then
           [\<lparr>Status = ResponseSuccess, Reason = ''success'',
             Body = BodyServers (map (server_status net pf) (Servers cfg))\<rparr>]
         else [])\<rparr>"
  using assms
  by (simp add: StatusCb_def WriteHeaderResponse_def WriteHeaderResponseCustom_def
      WriteJson_def ResponseSuccess_def ResponseFail_def StatusCb_refresh_all)

lemma parseQuery_Nil: "parseQuery m [] = m"
  by (subst parseQuery.simps) simp

lemma Query_plain_request: "Query plain_request = Map.empty"
  by (simp add: Query_def plain_request_def ParseQuery_def parseQuery_Nil)

lemma PlayerLeaderboardCb_loop:
  "foldl (\<lambda>s stmt. stmt s) st
     (map (\<lambda>v st.
              st\<lparr>playTimeLeaderboardW := (playTimeLeaderboardW st)
                    \<lparr>Var := Var (playTimeLeaderboardW st)
                        @ [\<lparr>ByondKey = ByondKey v, Minutes = Minutes v\<rparr>]\<rparr>\<rparr>) data) =
   st\<lparr>playTimeLeaderboardW := (playTimeLeaderboardW st)
        \<lparr>Var := Var (playTimeLeaderboardW st) @ data\<rparr>\<rparr>"
  by (induction data arbitrary: st) simp_all


lemma PlayerLeaderboardCb_refresh_all:
  "exec (PlayerLeaderboardCb_refresh db now) st =
     st\<lparr>playTimeLeaderboardW := (playTimeLeaderboardW st)
          \<lparr>LastAccess := now, Var := GetTopMinutes db ''Living''\<rparr>,
        lookups := lookups st @ [CallGetTopMinutes ''Living'']\<rparr>"
  by (simp add: exec_def PlayerLeaderboardCb_refresh_def PlayerLeaderboardCb_loop)

lemma copy_rows:
  "foldl (\<lambda>playTimes v. playTimes @ [\<lparr>ByondKey = ByondKey v, Minutes = Minutes v\<rparr>]) acc data
     = acc @ data"
  by (induction data arbitrary: acc) simp_all

lemma WriteHeaderResponse_success:
  "WriteHeaderResponse st ResponseSuccess body =
     st\<lparr>written := written st @
        (if encodable body then
           [\<lparr>Status = ResponseSuccess, Reason = ''success'', Body = body\<rparr>]
         else [])\<rparr>"
  by (simp add: WriteHeaderResponse_def WriteHeaderResponseCustom_def WriteJson_def
      ResponseSuccess_def ResponseFail_def)

lemma WriteHeaderResponse_bad_auth:
  "WriteHeaderResponse st ResponseBadAuth body =
     st\<lparr>written := written st @
        [\<lparr>Status = ResponseBadAuth, Reason = ''bad auth'', Body = BodyInt 0\<rparr>]\<rparr>"
  by (simp add: WriteHeaderResponse_def WriteHeaderResponseCustom_def WriteJson_def
      ResponseSuccess_def ResponseFail_def ResponseDenied_def ResponseBadAuth_def)

lemma PlayerLeaderboardCb_no_job:
  assumes "Get (Query r) ''job'' = []"
  shows "PlayerLeaderboardCb cfg db now r st =
    (if ShouldRefreshResponse now (playTimeLeaderboardW st) then
       st\<lparr>playTimeLeaderboardW := (playTimeLeaderboardW st)
            \<lparr>LastAccess := now, Var := GetTopMinutes db ''Living''\<rparr>,
          lookups := lookups st @ [CallGetTopMinutes ''Living''],
          written := written st @
            [\<lparr>Status = ResponseSuccess, Reason = ''success'',
              Body = BodyRoleTimes (GetTopMinutes db ''Living'')\<rparr>]\<rparr>
     else
       st\<lparr>written := written st @
            [\<lparr>Status = ResponseSuccess, Reason = ''success'',
              Body = BodyRoleTimes (Var (playTimeLeaderboardW st))\<rparr>]\<rparr>)"
  using assms
  by (simp add: PlayerLeaderboardCb_def WriteHeaderResponse_success
      PlayerLeaderboardCb_refresh_all)

lemma PlayerLeaderboardCb_job:
  assumes "Get (Query r) ''job'' \<noteq> []"
  shows "PlayerLeaderboardCb cfg db now r st =
    (if token_header r \<noteq> Secret cfg then
       st\<lparr>written := written st @
            [\<lparr>Status = ResponseBadAuth, Reason = ''bad auth'', Body = BodyInt 0\<rparr>]\<rparr>
     else
       st\<lparr>lookups := lookups st @ [CallGetTopMinutes (Get (Query r) ''job'')],
          written := written st @
            [\<lparr>Status = ResponseSuccess, Reason = ''success'',
              Body = BodyRoleTimes (GetTopMinutes db (Get (Query r) ''job''))\<rparr>]\<rparr>)"
  using assms
  by (simp add: PlayerLeaderboardCb_def Confidential_def WriteHeaderResponse_success
      WriteHeaderResponse_bad_auth copy_rows Let_def)

lemma server_status_Name: "Name (server_status net pf server) = srvName server"
  by (simp add: server_status_def base_status_def Let_def split: prod.splits)

lemma server_status_offline:
  assumes "fst (Topic net (srvAddress server) ''?status'') \<noteq> None
         \<or> fst (snd (Topic net (srvAddress server) ''?status'')) \<noteq> TopicTypeString"
  shows "server_status net pf server = base_status server"
  using assms by (auto simp: server_status_def Let_def split: prod.splits)

lemma Topic_no_listener: "Topic no_listener address data = (Some DialError, TopicTypeNull, [])"
  by (simp add: Topic_def no_listener_def)

lemma InitV1_start:
  "InitV1 start = \<lparr>serverResponseW = \<lparr>Cooldown = 5 * Second, LastAccess = 0, Var = []\<rparr>,
            playTimeLeaderboardW = \<lparr>Cooldown = Hour, LastAccess = 0, Var = []\<rparr>,
            written = [], lookups = []\<rparr>"
  by (simp add: InitV1_def start_def Init_def)

lemma Get_job_doctor: "Get (Query (doctor_request tok)) ''job'' = ''Doctor''"
proof -
  have "Get (ParseQuery ''job=Doctor'') ''job'' = ''Doctor''"
    by code_simp
  then show ?thesis
    by (simp add: Query_def doctor_request_def)
qed

lemma encodable_base_status: "encodable_status (base_status server)"
  by (simp add: encodable_status_def base_status_def isfinite_def)


lemma Get_job_plain: "Get (Query plain_request) ''job'' = []"
  by (simp add: Query_plain_request Get_def)

lemma stale_after_InitV1:
  "ShouldRefreshResponse clock_2023 (serverResponseW (InitV1 start))"
  "ShouldRefreshResponse clock_2023 (playTimeLeaderboardW (InitV1 start))"
  by (simp_all add: ShouldRefreshResponse_iff InitV1_start sint_five_Second sint_Hour
      clock_2023_def)

lemma doctor_has_job: "Get (Query (doctor_request tok)) ''job'' \<noteq> []"
  by (simp add: Get_job_doctor)

lemma token_doctor_request: "token_header (doctor_request tok) = tok"
  by (simp add: doctor_request_def)

lemma Secret_config_A: "Secret config_A = ''hunter2''"
  by (simp add: config_A_def)

section \<open>The cache policy\<close>

text \<open>
  C4. \<^verbatim>\<open>ShouldRefreshResponse\<close> is true exactly when the time since the last access
  is at least the cooldown (for an entry whose last access is not in the future).
  \<^verbatim>\<open>Init\<close> sets the last access to the zero time, so the entry is stale before the
  first refresh, on any clock that reads at least the cooldown past the zero time. After
  a refresh at \<open>now\<close> an entry with a positive cooldown is not stale at \<open>now\<close>, and when it
  is stale at a later \<open>now'\<close> then at least the cooldown has passed.
\<close>

theorem ShouldRefreshResponse_staleness:
  "(LastAccess c \<le> now \<longrightarrow>
      (ShouldRefreshResponse now c \<longleftrightarrow> now - LastAccess c \<ge> sint (Cooldown c)))
   \<and> LastAccess (Init cooldown c) = 0
   \<and> Cooldown (Init cooldown c) = cooldown
   \<and> (sint cooldown \<le> now \<longrightarrow> ShouldRefreshResponse now (Init cooldown c))
   \<and> (0 < sint (Cooldown (serverResponseW st)) \<longrightarrow>
        \<not> ShouldRefreshResponse now
            (serverResponseW (exec (StatusCb_refresh net pf cfg now) st)))
   \<and> (now \<le> now' \<and>
        ShouldRefreshResponse now'
          (serverResponseW (exec (StatusCb_refresh net pf cfg now) st)) \<longrightarrow>
        now' - now \<ge> sint (Cooldown (serverResponseW st)))"
proof -
  let ?c' = "serverResponseW (exec (StatusCb_refresh net pf cfg now) st)"
  have fields: "LastAccess ?c' = now" "Cooldown ?c' = Cooldown (serverResponseW st)"
    by (simp_all add: StatusCb_refresh_all)
  have iff: "LastAccess c \<le> now \<longrightarrow>
      (ShouldRefreshResponse now c \<longleftrightarrow> now - LastAccess c \<ge> sint (Cooldown c))"
    by (simp add: ShouldRefreshResponse_iff)
  have init: "sint cooldown \<le> now \<longrightarrow> ShouldRefreshResponse now (Init cooldown c)"
    using sint_Duration_bounds [of cooldown]
    by (auto simp: ShouldRefreshResponse_def sint_Since Init_def)
  have fresh: "0 < sint (Cooldown (serverResponseW st)) \<longrightarrow> \<not> ShouldRefreshResponse now ?c'"
    using ShouldRefreshResponse_iff [of ?c' now] fields by simp
  have again: "now \<le> now' \<and> ShouldRefreshResponse now' ?c' \<longrightarrow>
      now' - now \<ge> sint (Cooldown (serverResponseW st))"
    using ShouldRefreshResponse_iff [of ?c' now'] fields by auto
  show ?thesis
    using iff init fresh again by (simp add: Init_def)
qed

text \<open>
  The policy on the status cache of \<^verbatim>\<open>InitV1\<close>, cooldown five seconds: stale in 2023
  before the first refresh, fresh right after it, stale again five seconds later.
\<close>

theorem ShouldRefreshResponse_staleness_witness:
  "LastAccess (serverResponseW (InitV1 start)) \<le> clock_2023
   \<and> ShouldRefreshResponse clock_2023 (serverResponseW (InitV1 start))
   \<and> sint (5 * Second) \<le> clock_2023
   \<and> ShouldRefreshResponse clock_2023
         (Init (5 * Second) (serverResponseW (InitV1 start)))
   \<and> 0 < sint (Cooldown (serverResponseW (InitV1 start)))
   \<and> \<not> ShouldRefreshResponse clock_2023
         (serverResponseW (exec (StatusCb_refresh no_listener zero_floats config_A clock_2023)
            (InitV1 start)))
   \<and> clock_2023 \<le> clock_2023 + 5000000000
   \<and> ShouldRefreshResponse (clock_2023 + 5000000000)
         (serverResponseW (exec (StatusCb_refresh no_listener zero_floats config_A clock_2023)
            (InitV1 start)))
   \<and> (clock_2023 + 5000000000) - clock_2023
        \<ge> sint (Cooldown (serverResponseW (InitV1 start)))"
  using ShouldRefreshResponse_staleness
          [where c = "serverResponseW (InitV1 start)" and now = clock_2023
             and cooldown = "5 * Second" and st = "InitV1 start"
             and net = no_listener and pf = zero_floats and cfg = config_A
             and now' = "clock_2023 + 5000000000"]
        ShouldRefreshResponse_staleness
          [where c = "serverResponseW
                 (exec (StatusCb_refresh no_listener zero_floats config_A clock_2023)
                 (InitV1 start))" and now = "clock_2023 + 5000000000"
             and st = "InitV1 start"]
  by (simp add: InitV1_start StatusCb_refresh_all sint_five_Second clock_2023_def)




section \<open>The status aggregator\<close>

text \<open>
  C5, as the code has it. A refresh that runs with no other refresh between its
  statements leaves in the cache exactly one record for each configured server, in the
  order of the configuration: the list of the records of the servers, as long as the
  server list and with the servers' names in their order. A stale \<^verbatim>\<open>StatusCb\<close> then
  answers with that list, when the list can be encoded. The record of a server whose
  query fails, or is answered with a tag other than string, is the base record: offline,
  with the configured message.
\<close>

theorem StatusCb_one_record_per_server:
  "Var (serverResponseW (exec (StatusCb_refresh net pf cfg now) st))
     = map (server_status net pf) (Servers cfg)
   \<and> length (Var (serverResponseW (exec (StatusCb_refresh net pf cfg now) st)))
     = length (Servers cfg)
   \<and> map Name (Var (serverResponseW (exec (StatusCb_refresh net pf cfg now) st)))
     = map srvName (Servers cfg)
   \<and> (ShouldRefreshResponse now (serverResponseW st) \<longrightarrow>
        written (StatusCb net pf cfg now r st) = written st @
          (if encodable (BodyServers (map (server_status net pf) (Servers cfg))) then
             [\<lparr>Status = ResponseSuccess, Reason = ''success'',
               Body = BodyServers (map (server_status net pf) (Servers cfg))\<rparr>]
           else []))
   \<and> (fst (Topic net (srvAddress server) ''?status'') \<noteq> None
        \<or> fst (snd (Topic net (srvAddress server) ''?status'')) \<noteq> TopicTypeString \<longrightarrow>
        server_status net pf server = base_status server
        \<and> ServerStatus (server_status net pf server) = 0
        \<and> ErrorMessage (server_status net pf server) = srvErrorMessage server)"
proof -
  have records: "Var (serverResponseW (exec (StatusCb_refresh net pf cfg now) st))
      = map (server_status net pf) (Servers cfg)"
    by (simp add: StatusCb_refresh_all)
  have len: "length (Var (serverResponseW (exec (StatusCb_refresh net pf cfg now) st)))
      = length (Servers cfg)"
    by (simp add: records)
  have names: "map Name (Var (serverResponseW (exec (StatusCb_refresh net pf cfg now) st)))
      = map srvName (Servers cfg)"
    by (simp add: records server_status_Name)
  have handler: "ShouldRefreshResponse now (serverResponseW st) \<longrightarrow>
        written (StatusCb net pf cfg now r st) = written st @
          (if encodable (BodyServers (map (server_status net pf) (Servers cfg))) then
             [\<lparr>Status = ResponseSuccess, Reason = ''success'',
               Body = BodyServers (map (server_status net pf) (Servers cfg))\<rparr>]
           else [])"
    by (simp add: StatusCb_stale)
  have offline: "fst (Topic net (srvAddress server) ''?status'') \<noteq> None
        \<or> fst (snd (Topic net (srvAddress server) ''?status'')) \<noteq> TopicTypeString \<longrightarrow>
        server_status net pf server = base_status server
        \<and> ServerStatus (server_status net pf server) = 0
        \<and> ErrorMessage (server_status net pf server) = srvErrorMessage server"
    using server_status_offline [of net server pf] by (auto simp: base_status_def)
  show ?thesis
    using records len names handler offline by blast
qed

text \<open>
  The server list with the one server \<open>A\<close> and nothing listening: the answer holds the
  one record of \<open>A\<close>, offline, with its configured message.
\<close>

theorem StatusCb_one_record_per_server_witness:
  "ShouldRefreshResponse clock_2023 (serverResponseW (InitV1 start))
   \<and> fst (Topic no_listener (srvAddress server_A) ''?status'') \<noteq> None
   \<and> written (StatusCb no_listener to_f32 config_A clock_2023 plain_request (InitV1 start))
       = [\<lparr>Status = ResponseSuccess, Reason = ''success'',
           Body = BodyServers
             [\<lparr>Name = ''A'', ServerStatus = 0, ErrorMessage = ''unreachable'',
               RoundID = 0, Hub = False, Players = 0, Admins = 0, Map = [],
               SecurityLevel = [], RoundDuration = 0, GameState = 0,
               TimeDilation = Finite 0, TimeDilationAvg = Finite 0,
               TimeDilationSlow = Finite 0, TimeDilationFast = Finite 0,
               ShuttleMode = [], ShuttleTime = 0,
               ConnectionInfo = ''byond://127.0.0.1:9999''\<rparr>]\<rparr>]"
proof -
  have stale: "ShouldRefreshResponse clock_2023 (serverResponseW (InitV1 start))"
    by (rule stale_after_InitV1)
  have dial: "fst (Topic no_listener (srvAddress server_A) ''?status'') \<noteq> None"
    by (simp add: Topic_no_listener)
  note inst = StatusCb_one_record_per_server
      [where net = no_listener and pf = to_f32 and cfg = config_A and now = clock_2023
         and st = "InitV1 start" and r = plain_request and server = server_A]
  have "server_status no_listener to_f32 server_A = base_status server_A"
    using inst dial by blast
  moreover have "written (StatusCb no_listener to_f32 config_A clock_2023 plain_request
        (InitV1 start)) = written (InitV1 start) @
          (if encodable (BodyServers (map (server_status no_listener to_f32)
                 (Servers config_A))) then
             [\<lparr>Status = ResponseSuccess, Reason = ''success'',
               Body = BodyServers
                 (map (server_status no_listener to_f32) (Servers config_A))\<rparr>]
           else [])"
    using inst stale by blast
  ultimately show ?thesis
    using stale dial
    by (simp add: InitV1_start config_A_def encodable_base_status)
       (simp add: base_status_def server_A_def)
qed

text \<open>
  C5 as stated fails. Two requests find the cache stale and both refresh it. When the
  second clears the value after the first has, and both then append to the one list,
  the list holds two records for the one configured server.
\<close>

theorem StatusCb_one_record_per_server_counterexample:
  "ShouldRefreshResponse clock_2023 (serverResponseW (InitV1 start))
   \<and> length (Servers config_A) = 1
   \<and> length (Var (serverResponseW
         (exec (overlapped (StatusCb_refresh no_listener to_f32 config_A clock_2023)
                           (StatusCb_refresh no_listener to_f32 config_A clock_2023))
            (InitV1 start)))) = 2"
  by (simp add: stale_after_InitV1 config_A_def overlapped_def StatusCb_refresh_def exec_def)
























section \<open>The leaderboard and the ban check\<close>

text \<open>
  C8, as the code has it. A leaderboard request with a job and the right token issues
  one database lookup for that job and answers with its rows; with a job, right token or
  not, both caches and their last-access times stay as they were. A request without a job
  is answered from the cache when the cache is fresh, with no lookup, and refreshes the
  cache with one lookup when it is stale. \<^verbatim>\<open>InitV1\<close> gives that cache a cooldown of one
  hour.
\<close>

theorem PlayerLeaderboardCb_cache_use:
  "(Get (Query r) ''job'' \<noteq> [] \<and> token_header r = Secret cfg \<longrightarrow>
      PlayerLeaderboardCb cfg db now r st =
        st\<lparr>lookups := lookups st @ [CallGetTopMinutes (Get (Query r) ''job'')],
           written := written st @
             [\<lparr>Status = ResponseSuccess, Reason = ''success'',
               Body = BodyRoleTimes (GetTopMinutes db (Get (Query r) ''job''))\<rparr>]\<rparr>)
   \<and> (Get (Query r) ''job'' \<noteq> [] \<longrightarrow>
      playTimeLeaderboardW (PlayerLeaderboardCb cfg db now r st) = playTimeLeaderboardW st
      \<and> serverResponseW (PlayerLeaderboardCb cfg db now r st) = serverResponseW st)
   \<and> (Get (Query r) ''job'' = [] \<and> \<not> ShouldRefreshResponse now (playTimeLeaderboardW st) \<longrightarrow>
      PlayerLeaderboardCb cfg db now r st =
        st\<lparr>written := written st @
             [\<lparr>Status = ResponseSuccess, Reason = ''success'',
               Body = BodyRoleTimes (Var (playTimeLeaderboardW st))\<rparr>]\<rparr>)
   \<and> (Get (Query r) ''job'' = [] \<and> ShouldRefreshResponse now (playTimeLeaderboardW st) \<longrightarrow>
      PlayerLeaderboardCb cfg db now r st =
        st\<lparr>playTimeLeaderboardW := (playTimeLeaderboardW st)
             \<lparr>LastAccess := now, Var := GetTopMinutes db ''Living''\<rparr>,
           lookups := lookups st @ [CallGetTopMinutes ''Living''],
           written := written st @
             [\<lparr>Status = ResponseSuccess, Reason = ''success'',
               Body = BodyRoleTimes (GetTopMinutes db ''Living'')\<rparr>]\<rparr>)
   \<and> Cooldown (playTimeLeaderboardW (InitV1 st)) = Hour
   \<and> sint Hour = 3600 * 1000000000"
proof -
  have job: "Get (Query r) ''job'' \<noteq> [] \<and> token_header r = Secret cfg \<longrightarrow>
      PlayerLeaderboardCb cfg db now r st =
        st\<lparr>lookups := lookups st @ [CallGetTopMinutes (Get (Query r) ''job'')],
           written := written st @
             [\<lparr>Status = ResponseSuccess, Reason = ''success'',
               Body = BodyRoleTimes (GetTopMinutes db (Get (Query r) ''job''))\<rparr>]\<rparr>"
    by (simp add: PlayerLeaderboardCb_job)
  have frame: "Get (Query r) ''job'' \<noteq> [] \<longrightarrow>
      playTimeLeaderboardW (PlayerLeaderboardCb cfg db now r st) = playTimeLeaderboardW st
      \<and> serverResponseW (PlayerLeaderboardCb cfg db now r st) = serverResponseW st"
    by (simp add: PlayerLeaderboardCb_job)
  have fresh: "Get (Query r) ''job'' = [] \<and> \<not> ShouldRefreshResponse now (playTimeLeaderboardW st) \<longrightarrow>
      PlayerLeaderboardCb cfg db now r st =
        st\<lparr>written := written st @
             [\<lparr>Status = ResponseSuccess, Reason = ''success'',
               Body = BodyRoleTimes (Var (playTimeLeaderboardW st))\<rparr>]\<rparr>"
    by (simp add: PlayerLeaderboardCb_no_job)
  have stale: "Get (Query r) ''job'' = [] \<and> ShouldRefreshResponse now (playTimeLeaderboardW st) \<longrightarrow>
      PlayerLeaderboardCb cfg db now r st =
        st\<lparr>playTimeLeaderboardW := (playTimeLeaderboardW st)
             \<lparr>LastAccess := now, Var := GetTopMinutes db ''Living''\<rparr>,
           lookups := lookups st @ [CallGetTopMinutes ''Living''],
           written := written st @
             [\<lparr>Status = ResponseSuccess, Reason = ''success'',
               Body = BodyRoleTimes (GetTopMinutes db ''Living'')\<rparr>]\<rparr>"
    by (simp add: PlayerLeaderboardCb_no_job)
  have hour: "Cooldown (playTimeLeaderboardW (InitV1 st)) = Hour" "sint Hour = 3600 * 1000000000"
    by (simp_all add: InitV1_def Init_def sint_Hour)
  show ?thesis
    using job frame fresh stale hour by blast
qed

text \<open>
  On the caches of \<^verbatim>\<open>InitV1\<close>: the job \<open>Doctor\<close> with the right token is looked up and
  leaves the cache alone; the first request without a job refreshes the stale cache; a
  second one a minute later finds it fresh and issues no further lookup.
\<close>

theorem PlayerLeaderboardCb_cache_use_witness:
  "Get (Query (doctor_request ''hunter2'')) ''job'' \<noteq> []
   \<and> token_header (doctor_request ''hunter2'') = Secret config_A
   \<and> lookups (PlayerLeaderboardCb config_A two_rows clock_2023 (doctor_request ''hunter2'')
        (InitV1 start)) = [CallGetTopMinutes ''Doctor'']
   \<and> playTimeLeaderboardW (PlayerLeaderboardCb config_A two_rows clock_2023
        (doctor_request ''hunter2'') (InitV1 start))
       = playTimeLeaderboardW (InitV1 start)
   \<and> Get (Query plain_request) ''job'' = []
   \<and> ShouldRefreshResponse clock_2023 (playTimeLeaderboardW (InitV1 start))
   \<and> lookups (PlayerLeaderboardCb config_A two_rows clock_2023 plain_request
        (InitV1 start)) = [CallGetTopMinutes ''Living'']
   \<and> \<not> ShouldRefreshResponse (clock_2023 + 60000000000)
        (playTimeLeaderboardW (PlayerLeaderboardCb config_A two_rows clock_2023 plain_request
           (InitV1 start)))
   \<and> lookups (PlayerLeaderboardCb config_A two_rows (clock_2023 + 60000000000) plain_request
        (PlayerLeaderboardCb config_A two_rows clock_2023 plain_request
           (InitV1 start))) = [CallGetTopMinutes ''Living'']"
proof -
  let ?st0 = "InitV1 start"
  let ?st1 = "PlayerLeaderboardCb config_A two_rows clock_2023 plain_request ?st0"
  have h1: "Get (Query (doctor_request ''hunter2'')) ''job'' \<noteq> []
      \<and> token_header (doctor_request ''hunter2'') = Secret config_A"
    by (simp add: doctor_has_job token_doctor_request Secret_config_A)
  have h2: "Get (Query plain_request) ''job'' = []
      \<and> ShouldRefreshResponse clock_2023 (playTimeLeaderboardW ?st0)"
    by (simp add: Get_job_plain stale_after_InitV1)
  note doctor = PlayerLeaderboardCb_cache_use
      [where r = "doctor_request ''hunter2''" and cfg = config_A and db = two_rows
         and now = clock_2023 and st = ?st0]
  note first = PlayerLeaderboardCb_cache_use
      [where r = plain_request and cfg = config_A and db = two_rows
         and now = clock_2023 and st = ?st0]
  note second = PlayerLeaderboardCb_cache_use
      [where r = plain_request and cfg = config_A and db = two_rows
         and now = "clock_2023 + 60000000000" and st = ?st1]
  have st1: "?st1 = ?st0\<lparr>playTimeLeaderboardW := (playTimeLeaderboardW ?st0)
             \<lparr>LastAccess := clock_2023, Var := GetTopMinutes two_rows ''Living''\<rparr>,
           lookups := lookups ?st0 @ [CallGetTopMinutes ''Living''],
           written := written ?st0 @
             [\<lparr>Status = ResponseSuccess, Reason = ''success'',
               Body = BodyRoleTimes (GetTopMinutes two_rows ''Living'')\<rparr>]\<rparr>"
    using first h2 by blast
  have h3: "\<not> ShouldRefreshResponse (clock_2023 + 60000000000) (playTimeLeaderboardW ?st1)"
    unfolding st1 by (simp add: ShouldRefreshResponse_iff InitV1_start sint_Hour)
  have c1: "lookups (PlayerLeaderboardCb config_A two_rows clock_2023
        (doctor_request ''hunter2'') ?st0) = [CallGetTopMinutes ''Doctor'']"
    using doctor h1 by (simp add: Get_job_doctor InitV1_start)
  have c2: "playTimeLeaderboardW (PlayerLeaderboardCb config_A two_rows clock_2023
        (doctor_request ''hunter2'') ?st0) = playTimeLeaderboardW ?st0"
    using doctor h1 by blast
  have c3: "lookups ?st1 = [CallGetTopMinutes ''Living'']"
    unfolding st1 by (simp add: InitV1_start)
  have "PlayerLeaderboardCb config_A two_rows (clock_2023 + 60000000000) plain_request ?st1 =
      ?st1\<lparr>written := written ?st1 @
             [\<lparr>Status = ResponseSuccess, Reason = ''success'',
               Body = BodyRoleTimes (Var (playTimeLeaderboardW ?st1))\<rparr>]\<rparr>"
    using second h2 h3 by blast
  then have c4: "lookups (PlayerLeaderboardCb config_A two_rows (clock_2023 + 60000000000)
      plain_request ?st1) = [CallGetTopMinutes ''Living'']"
    using c3 by simp
  show ?thesis
    using h1 h2 h3 c1 c2 c3 c4 by blast
qed

text \<open>
  C8 as stated fails. A request for the job \<open>Doctor\<close> that presents a wrong token issues
  no database lookup.
\<close>

theorem PlayerLeaderboardCb_cache_use_counterexample:
  "Get (Query (doctor_request ''guess'')) ''job'' = ''Doctor''
   \<and> lookups (PlayerLeaderboardCb config_A two_rows clock_2023 (doctor_request ''guess'')
        (InitV1 start)) = []"
  by (simp add: PlayerLeaderboardCb_job doctor_has_job Get_job_doctor token_doctor_request
      Secret_config_A InitV1_start)

text \<open>
  C9. A leaderboard request with a job whose token differs from the secret is answered
  with the bad-auth envelope alone: no lookup is issued and neither cache changes. A
  request without a job is served whatever its token and whatever the secret.
\<close>

theorem PlayerLeaderboardCb_token_check:
  "(Get (Query r) ''job'' \<noteq> [] \<and> token_header r \<noteq> Secret cfg \<longrightarrow>
      PlayerLeaderboardCb cfg db now r st =
        st\<lparr>written := written st @
             [\<lparr>Status = ResponseBadAuth, Reason = ''bad auth'', Body = BodyInt 0\<rparr>]\<rparr>
      \<and> lookups (PlayerLeaderboardCb cfg db now r st) = lookups st
      \<and> playTimeLeaderboardW (PlayerLeaderboardCb cfg db now r st) = playTimeLeaderboardW st
      \<and> serverResponseW (PlayerLeaderboardCb cfg db now r st) = serverResponseW st)
   \<and> (Get (Query r) ''job'' = [] \<longrightarrow>
      PlayerLeaderboardCb cfg db now (r\<lparr>token_header := tok\<rparr>) st
        = PlayerLeaderboardCb cfg db now r st
      \<and> PlayerLeaderboardCb (cfg\<lparr>Secret := sec\<rparr>) db now r st
        = PlayerLeaderboardCb cfg db now r st)"
proof -
  have denied: "Get (Query r) ''job'' \<noteq> [] \<and> token_header r \<noteq> Secret cfg \<longrightarrow>
      PlayerLeaderboardCb cfg db now r st =
        st\<lparr>written := written st @
             [\<lparr>Status = ResponseBadAuth, Reason = ''bad auth'', Body = BodyInt 0\<rparr>]\<rparr>
      \<and> lookups (PlayerLeaderboardCb cfg db now r st) = lookups st
      \<and> playTimeLeaderboardW (PlayerLeaderboardCb cfg db now r st) = playTimeLeaderboardW st
      \<and> serverResponseW (PlayerLeaderboardCb cfg db now r st) = serverResponseW st"
    by (simp add: PlayerLeaderboardCb_job)
  have query: "Query (r\<lparr>token_header := tok\<rparr>) = Query r"
    by (simp add: Query_def)
  have open_path: "Get (Query r) ''job'' = [] \<longrightarrow>
      PlayerLeaderboardCb cfg db now (r\<lparr>token_header := tok\<rparr>) st
        = PlayerLeaderboardCb cfg db now r st
      \<and> PlayerLeaderboardCb (cfg\<lparr>Secret := sec\<rparr>) db now r st
        = PlayerLeaderboardCb cfg db now r st"
    by (simp add: PlayerLeaderboardCb_no_job query)
  show ?thesis
    using denied open_path by blast
qed

text \<open>
  The job \<open>Doctor\<close> with a wrong token, and a request without a job with and without a
  token.
\<close>

theorem PlayerLeaderboardCb_token_check_witness:
  "Get (Query (doctor_request ''guess'')) ''job'' \<noteq> []
   \<and> token_header (doctor_request ''guess'') \<noteq> Secret config_A
   \<and> PlayerLeaderboardCb config_A two_rows clock_2023 (doctor_request ''guess'')
        (InitV1 start)
       = (InitV1 start)\<lparr>written :=
            [\<lparr>Status = ResponseBadAuth, Reason = ''bad auth'', Body = BodyInt 0\<rparr>]\<rparr>
   \<and> Get (Query plain_request) ''job'' = []
   \<and> PlayerLeaderboardCb config_A two_rows clock_2023
        (plain_request\<lparr>token_header := ''guess''\<rparr>) (InitV1 start)
       = PlayerLeaderboardCb config_A two_rows clock_2023 plain_request (InitV1 start)"
proof -
  have h1: "Get (Query (doctor_request ''guess'')) ''job'' \<noteq> []
      \<and> token_header (doctor_request ''guess'') \<noteq> Secret config_A"
    by (simp add: doctor_has_job token_doctor_request Secret_config_A)
  have h2: "Get (Query plain_request) ''job'' = []"
    by (rule Get_job_plain)
  have c1: "PlayerLeaderboardCb config_A two_rows clock_2023 (doctor_request ''guess'')
        (InitV1 start)
       = (InitV1 start)\<lparr>written :=
            [\<lparr>Status = ResponseBadAuth, Reason = ''bad auth'', Body = BodyInt 0\<rparr>]\<rparr>"
    using PlayerLeaderboardCb_token_check
      [where r = "doctor_request ''guess''" and cfg = config_A and db = two_rows
         and now = clock_2023 and st = "InitV1 start"] h1
    by (simp add: InitV1_start)
  have c2: "PlayerLeaderboardCb config_A two_rows clock_2023
        (plain_request\<lparr>token_header := ''guess''\<rparr>) (InitV1 start)
       = PlayerLeaderboardCb config_A two_rows clock_2023 plain_request (InitV1 start)"
    using PlayerLeaderboardCb_token_check
      [where r = plain_request and cfg = config_A and db = two_rows
         and now = clock_2023 and st = "InitV1 start" and tok = "''guess''"] h2
    by blast
  show ?thesis
    using h1 h2 c1 c2 by blast
qed

text \<open>
  C10. A ban check with the right token and neither an \<open>id\<close> nor a \<open>ckey\<close> parameter
  changes nothing: no lookup is issued and nothing is written to the response.
\<close>

theorem BanCheckCb_no_parameter:
  "token_header r = Secret cfg \<and> \<not> Has (Query r) ''id'' \<and> \<not> Has (Query r) ''ckey'' \<longrightarrow>
     BanCheckCb cfg db r st = st
     \<and> written (BanCheckCb cfg db r st) = written st
     \<and> lookups (BanCheckCb cfg db r st) = lookups st"
  by (simp add: BanCheckCb_def Confidential_def Let_def)

text \<open>
  The request with the right token and an empty query: the response stays empty.
\<close>

theorem BanCheckCb_no_parameter_witness:
  "token_header (plain_request\<lparr>token_header := ''hunter2''\<rparr>) = Secret config_A
   \<and> \<not> Has (Query (plain_request\<lparr>token_header := ''hunter2''\<rparr>)) ''id''
   \<and> \<not> Has (Query (plain_request\<lparr>token_header := ''hunter2''\<rparr>)) ''ckey''
   \<and> BanCheckCb config_A two_rows (plain_request\<lparr>token_header := ''hunter2''\<rparr>)
        (InitV1 start) = InitV1 start
   \<and> written (BanCheckCb config_A two_rows (plain_request\<lparr>token_header := ''hunter2''\<rparr>)
        (InitV1 start)) = []
   \<and> lookups (BanCheckCb config_A two_rows (plain_request\<lparr>token_header := ''hunter2''\<rparr>)
        (InitV1 start)) = []"
proof -
  have query: "Query (plain_request\<lparr>token_header := ''hunter2''\<rparr>) = Map.empty"
    by (simp add: Query_def plain_request_def ParseQuery_def parseQuery_Nil)
  have hyps: "token_header (plain_request\<lparr>token_header := ''hunter2''\<rparr>) = Secret config_A
      \<and> \<not> Has (Query (plain_request\<lparr>token_header := ''hunter2''\<rparr>)) ''id''
      \<and> \<not> Has (Query (plain_request\<lparr>token_header := ''hunter2''\<rparr>)) ''ckey''"
    by (simp add: query Has_def config_A_def)
  note inst = BanCheckCb_no_parameter
      [where r = "plain_request\<lparr>token_header := ''hunter2''\<rparr>" and cfg = config_A
         and db = two_rows and st = "InitV1 start"]
  have same: "BanCheckCb config_A two_rows (plain_request\<lparr>token_header := ''hunter2''\<rparr>)
        (InitV1 start) = InitV1 start"
    using inst hyps by blast
  have silent: "written (BanCheckCb config_A two_rows
        (plain_request\<lparr>token_header := ''hunter2''\<rparr>) (InitV1 start)) = []"
      "lookups (BanCheckCb config_A two_rows
        (plain_request\<lparr>token_header := ''hunter2''\<rparr>) (InitV1 start)) = []"
    by (simp_all only: same) (simp_all add: InitV1_start)
  show ?thesis
    using hyps same silent by blast
qed

end
